theory Spec2Isabelle
  imports Complex_Main
begin

section \<open>Tabular data\<close>

text \<open>
  The backend keeps pandas data frames in its session. A frame is modelled as the list of
  its columns, each a series with a name, a dtype and its cells. The dtypes are the ones
  pandas infers from CSV text: int64, float64, bool and object. A Python float is a real
  number or one of the three special values; a missing cell is the float NaN, also in an
  object column. Column names of a parsed frame are pairwise distinct, since the parsers
  rename duplicates.
\<close>

datatype pyfloat = Finite real | PosInf | NegInf | NaN

datatype cell = IntV int | FloatV pyfloat | BoolV bool | StrV string

datatype dtype = Int64 | Float64 | Bool | Object

record series =
  name :: string
  dtype :: dtype
  vals :: "cell list"

type_synonym table = "series list"

text \<open>\<^verbatim>\<open>a <= b\<close> on Python floats: every comparison with NaN is false.\<close>

fun py_le :: "pyfloat \<Rightarrow> pyfloat \<Rightarrow> bool" where
  "py_le NaN _ = False"
| "py_le _ NaN = False"
| "py_le NegInf _ = True"
| "py_le _ PosInf = True"
| "py_le (Finite a) (Finite b) = (a \<le> b)"
| "py_le (Finite a) NegInf = False"
| "py_le PosInf (Finite b) = False"
| "py_le PosInf NegInf = False"

definition df_columns :: "table \<Rightarrow> string list" where
  "df_columns df = map name df"

definition len_df :: "table \<Rightarrow> nat" where
  "len_df df = (case df of [] \<Rightarrow> 0 | c # _ \<Rightarrow> length (vals c))"

text \<open>\<^verbatim>\<open>df.empty\<close>: some axis has length 0.\<close>

definition df_empty :: "table \<Rightarrow> bool" where
  "df_empty df = (df = [] \<or> len_df df = 0)"

definition isna :: "cell \<Rightarrow> bool" where
  "isna c = (c = FloatV NaN)"

text \<open>\<^verbatim>\<open>df.replace([np.inf, -np.inf], np.nan)\<close>\<close>

fun replace_inf_cell :: "cell \<Rightarrow> cell" where
  "replace_inf_cell (FloatV PosInf) = FloatV NaN"
| "replace_inf_cell (FloatV NegInf) = FloatV NaN"
| "replace_inf_cell c = c"

definition replace_inf :: "table \<Rightarrow> table" where
  "replace_inf df = map (\<lambda>c. c\<lparr>vals := map replace_inf_cell (vals c)\<rparr>) df"

text \<open>\<^verbatim>\<open>int(df.isna().sum().sum())\<close>\<close>

definition nan_count_of :: "table \<Rightarrow> nat" where
  "nan_count_of df = sum_list (map (\<lambda>c. length (filter isna (vals c))) df)"

text \<open>\<^verbatim>\<open>df[col]\<close> for one name, \<^verbatim>\<open>df[cols]\<close> for a list of names,
  \<^verbatim>\<open>df.drop(columns=[col])\<close>.\<close>

definition get_column :: "table \<Rightarrow> string \<Rightarrow> series option" where
  "get_column df col = find (\<lambda>c. name c = col) df"

definition select_columns :: "table \<Rightarrow> string list \<Rightarrow> table" where
  "select_columns df cols = concat (map (\<lambda>n. filter (\<lambda>c. name c = n) df) cols)"

definition drop_column :: "table \<Rightarrow> string \<Rightarrow> table" where
  "drop_column df col = filter (\<lambda>c. name c \<noteq> col) df"

text \<open>\<^verbatim>\<open>np.issubdtype(dtype, np.number)\<close>: the integer and floating dtypes are numbers,
  bool and object are not.\<close>

fun issubdtype_number :: "dtype \<Rightarrow> bool" where
  "issubdtype_number Int64 = True"
| "issubdtype_number Float64 = True"
| "issubdtype_number Bool = False"
| "issubdtype_number Object = False"

text \<open>\<^verbatim>\<open>series.unique()\<close>: the distinct values in order of first appearance.\<close>

fun unique :: "cell list \<Rightarrow> cell list" where
  "unique [] = []"
| "unique (x # xs) = x # filter (\<lambda>y. y \<noteq> x) (unique xs)"

section \<open>Errors and responses\<close>

text \<open>
  Every failure of an endpoint is an \<^verbatim>\<open>HTTPException\<close>; there is one constructor per
  raise site of the source. \<open>Exception\<close> is an exception of a library, carrying its
  message; the handlers \<^verbatim>\<open>except Exception as e\<close> wrap what they catch.
\<close>

datatype error =
    Exception string
  | InvalidFileType
  | FileEmpty
  | TooFewColumns
  | ErrorProcessingFile error
  | NoDatasetUploaded
  | NoDataset
  | InvalidColumns "string list" "string list"
  | ColumnsNotNumeric "string list"
  | InvalidMethod
  | ErrorDuringPreprocessing error
  | TargetNotFound string "string list"
  | TestSizeOutOfRange
  | ErrorDuringSplit error
  | DataNotSplit
  | InvalidModelType
  | ErrorDuringTraining error
  | NoModelTrained
  | ErrorGeneratingResults error
  | InternalServerError error

text \<open>
  The three kinds of the error taxonomy: bad input, an operation attempted before the
  stage it needs, and a failure caught and rewrapped by a handler.
\<close>

datatype error_kind = ValidationError | PreconditionError | OperationError

fun kind_of :: "error \<Rightarrow> error_kind" where
  "kind_of InvalidFileType = ValidationError"
| "kind_of FileEmpty = ValidationError"
| "kind_of TooFewColumns = ValidationError"
| "kind_of (InvalidColumns _ _) = ValidationError"
| "kind_of (ColumnsNotNumeric _) = ValidationError"
| "kind_of InvalidMethod = ValidationError"
| "kind_of (TargetNotFound _ _) = ValidationError"
| "kind_of TestSizeOutOfRange = ValidationError"
| "kind_of InvalidModelType = ValidationError"
| "kind_of NoDatasetUploaded = PreconditionError"
| "kind_of NoDataset = PreconditionError"
| "kind_of DataNotSplit = PreconditionError"
| "kind_of NoModelTrained = PreconditionError"
| "kind_of (Exception _) = OperationError"
| "kind_of (ErrorProcessingFile _) = OperationError"
| "kind_of (ErrorDuringPreprocessing _) = OperationError"
| "kind_of (ErrorDuringSplit _) = OperationError"
| "kind_of (ErrorDuringTraining _) = OperationError"
| "kind_of (ErrorGeneratingResults _) = OperationError"
| "kind_of (InternalServerError _) = OperationError"

text \<open>
  \<^verbatim>\<open>f"Applied {method_name} to columns: {request.columns}"\<close>: the message with its two
  holes.
\<close>

datatype description = Applied string "string list"

text \<open>
  The dictionary built by \<^verbatim>\<open>df_to_json\<close>. A cell of the preview is \<open>None\<close> where
  an object column has a missing value.
\<close>

record df_json =
  json_columns :: "string list"
  json_data :: "cell option list list"
  json_dtypes :: "(string \<times> dtype) list"
  total_rows :: nat
  preview_rows :: nat

record dataset_info =
  info_rows :: nat
  info_columns :: nat
  column_names :: "string list"
  info_dtypes :: "(string \<times> dtype) list"

record split_info =
  train_samples :: nat
  test_samples :: nat
  train_ratio :: int
  test_ratio :: int
  split_target_column :: string
  split_feature_columns :: "string list"
  num_features :: nat
  target_classes :: "cell list"

record model_info =
  info_model_type :: string
  info_model_name :: string
  training_samples :: nat
  features_used :: "string list option"

record results_info =
  results_model_name :: "string option"
  accuracy :: real
  results_test_samples :: nat
  confusion :: "nat list list"
  confusion_image :: string
  model_specific :: "(string \<times> string) option"

record status_details =
  dataset_rows :: nat
  transformations :: "description list"
  details_model_name :: "string option"
  details_target_column :: "string option"

record pipeline_status =
  upload_flag :: bool
  preprocess_flag :: bool
  split_flag :: bool
  train_flag :: bool
  results_flag :: bool
  details :: status_details

text \<open>
  The content of a successful response, without its constant \<^verbatim>\<open>success\<close> key and
  its message text.
\<close>

datatype response =
    Health
  | UploadOk string nat dataset_info df_json
  | DatasetOk dataset_info df_json "description list"
  | PreprocessOk description df_json "description list"
  | ResetPreprocessingOk df_json
  | SplitOk split_info
  | TrainOk model_info
  | ResultsOk results_info
  | StatusOk pipeline_status
  | ResetOk

text \<open>
  \<^verbatim>\<open>JSONResponse\<close> serialises with \<^verbatim>\<open>allow_nan=False\<close>: a float that is NaN or
  infinite anywhere in the content raises \<^verbatim>\<open>ValueError\<close>.
\<close>

fun json_cell_ok :: "cell \<Rightarrow> bool" where
  "json_cell_ok (FloatV (Finite _)) = True"
| "json_cell_ok (FloatV _) = False"
| "json_cell_ok _ = True"

definition json_preview_ok :: "df_json \<Rightarrow> bool" where
  "json_preview_ok p =
     list_all (list_all (\<lambda>c. case c of None \<Rightarrow> True | Some v \<Rightarrow> json_cell_ok v)) (json_data p)"

fun json_compliant :: "response \<Rightarrow> bool" where
  "json_compliant (UploadOk _ _ _ p) = json_preview_ok p"
| "json_compliant (DatasetOk _ p _) = json_preview_ok p"
| "json_compliant (PreprocessOk _ p _) = json_preview_ok p"
| "json_compliant (ResetPreprocessingOk p) = json_preview_ok p"
| "json_compliant (SplitOk i) = list_all json_cell_ok (target_classes i)"
| "json_compliant _ = True"

definition not_json_compliant :: error where
  "not_json_compliant = Exception ''Out of range float values are not JSON compliant''"

definition JSONResponse :: "response \<Rightarrow> error + response" where
  "JSONResponse r = (if json_compliant r then Inr r else Inl not_json_compliant)"

text \<open>
  \<^verbatim>\<open>df_to_json\<close>: the first \<open>max_rows\<close> rows, infinite values replaced by NaN, and
  then \<^verbatim>\<open>preview_df.where(pd.notnull(preview_df), None)\<close>. In an object column
  that puts \<open>None\<close> in place of a missing value. In a column of a numeric or bool dtype
  pandas stores the missing value of that dtype for \<open>None\<close>, so a NaN of a float64 column
  stays NaN, whatever the comment of the function says, and reaches the response.
\<close>

definition json_cell :: "dtype \<Rightarrow> cell \<Rightarrow> cell option" where
  "json_cell d c =
     (let c' = replace_inf_cell c in if isna c' \<and> d = Object then None else Some c')"

definition df_to_json :: "table \<Rightarrow> df_json" where
  "df_to_json df =
     (let preview_rows = min 100 (len_df df) in
      \<lparr>json_columns = df_columns df,
       json_data = map (\<lambda>i. map (\<lambda>c. json_cell (dtype c) (vals c ! i)) df) [0..<preview_rows],
       json_dtypes = map (\<lambda>c. (name c, dtype c)) df,
       total_rows = len_df df,
       preview_rows = preview_rows\<rparr>)"

definition dataset_info_of :: "table \<Rightarrow> dataset_info" where
  "dataset_info_of df =
     \<lparr>info_rows = len_df df,
      info_columns = length (df_columns df),
      column_names = df_columns df,
      info_dtypes = map (\<lambda>c. (name c, dtype c)) df\<rparr>"

section \<open>The libraries\<close>

text \<open>
  Parsing, scaling, partitioning, fitting, prediction, metrics and plotting are calls into
  pandas, scikit-learn and matplotlib. They are parameters of the model: a library is a
  record of functions, each returning its result or the message of the exception it
  raises. \<open>'p\<close> is what fitting stores inside an estimator.
\<close>

datatype scaler = StandardScaler | MinMaxScaler

text \<open>An estimator as constructed: its class and the keyword arguments given.\<close>

datatype classifier =
    LogisticRegression nat int
  | DecisionTreeClassifier nat int

record 'p library =
  read_csv :: "string \<Rightarrow> string + table"
  read_excel :: "string \<Rightarrow> string + table"
  fit_transform :: "scaler \<Rightarrow> table \<Rightarrow> string + pyfloat list list"
  train_test_split ::
    "table \<Rightarrow> series \<Rightarrow> pyfloat \<Rightarrow> int \<Rightarrow> series option
      \<Rightarrow> string + (table \<times> table \<times> series \<times> series)"
  fit :: "classifier \<Rightarrow> table \<Rightarrow> series \<Rightarrow> string + 'p"
  predict :: "classifier \<times> 'p \<Rightarrow> table \<Rightarrow> string + cell list"
  accuracy_score :: "cell list \<Rightarrow> cell list \<Rightarrow> string + real"
  confusion_matrix :: "cell list \<Rightarrow> cell list \<Rightarrow> string + nat list list"
  plot_confusion_matrix :: "nat list list \<Rightarrow> series \<Rightarrow> string + string"
  plot_decision_tree :: "'p \<Rightarrow> string list option \<Rightarrow> series \<Rightarrow> string + string"
  plot_feature_importance :: "'p \<Rightarrow> string list option \<Rightarrow> string + string"

text \<open>A library call inside a \<^verbatim>\<open>try\<close> block: its exception as an error value.\<close>

definition call :: "string + 'a \<Rightarrow> error + 'a" where
  "call r = (case r of Inl msg \<Rightarrow> Inl (Exception msg) | Inr v \<Rightarrow> Inr v)"

text \<open>
  \<^verbatim>\<open>pd.factorize(values)[0]\<close>: the code of a value is the number of distinct values
  seen before its first occurrence; a missing value gets the code -1 and is not counted.
  \<open>uniques\<close> is the table of the values seen so far.
\<close>

fun index_of :: "'a \<Rightarrow> 'a list \<Rightarrow> nat option" where
  "index_of x [] = None"
| "index_of x (y # ys) =
     (if x = y then Some 0 else map_option Suc (index_of x ys))"

fun factorize_from :: "cell list \<Rightarrow> cell list \<Rightarrow> int list" where
  "factorize_from uniques [] = []"
| "factorize_from uniques (v # vs) =
     (if isna v then - 1 # factorize_from uniques vs
      else (case index_of v uniques of
              Some i \<Rightarrow> int i # factorize_from uniques vs
            | None \<Rightarrow> int (length uniques) # factorize_from (uniques @ [v]) vs))"

definition factorize :: "cell list \<Rightarrow> int list" where
  "factorize vs = factorize_from [] vs"

section \<open>The session\<close>

record 'p session_state =
  original_df :: "table option"
  processed_df :: "table option"
  X_train :: "table option"
  X_test :: "table option"
  y_train :: "series option"
  y_test :: "series option"
  target_column :: "string option"
  feature_columns :: "string list option"
  model :: "(classifier \<times> 'p) option"
  model_name :: "string option"
  transformations_applied :: "description list"

definition initial_state :: "'p session_state" where
  "initial_state =
     \<lparr>original_df = None, processed_df = None,
      X_train = None, X_test = None, y_train = None, y_test = None,
      target_column = None, feature_columns = None,
      model = None, model_name = None,
      transformations_applied = []\<rparr>"

text \<open>The request bodies.\<close>

record upload_file =
  filename :: string
  content :: string

datatype PreprocessRequest = PreprocessRequest (columns: "string list") (req_method: string)

text \<open>\<open>SplitRequest target_column test_size random_state\<close>\<close>

datatype SplitRequest = SplitRequest string pyfloat int

datatype TrainRequest = TrainRequest (model_type: string)

section \<open>Upload\<close>

text \<open>\<^verbatim>\<open>str.lower\<close> on ASCII text.\<close>

definition lower_char :: "char \<Rightarrow> char" where
  "lower_char c =
     (case map_of (zip ''ABCDEFGHIJKLMNOPQRSTUVWXYZ'' ''abcdefghijklmnopqrstuvwxyz'') c of
        None \<Rightarrow> c
      | Some l \<Rightarrow> l)"

definition lower :: "string \<Rightarrow> string" where
  "lower s = map lower_char s"

definition endswith :: "string \<Rightarrow> string \<Rightarrow> bool" where
  "endswith s suffix =
     (length suffix \<le> length s \<and> drop (length s - length suffix) s = suffix)"

definition upload_dataset ::
  "'p library \<Rightarrow> 'p session_state \<Rightarrow> upload_file \<Rightarrow> (error + response) \<times> 'p session_state"
where
  "upload_dataset L s file =
     (let fname = lower (filename file) in
      if \<not> (endswith fname ''.csv'' \<or> endswith fname ''.xlsx'' \<or> endswith fname ''.xls'')
      then (Inl InvalidFileType, s)
      else
        (case call (if endswith fname ''.csv'' then read_csv L (content file)
                    else read_excel L (content file)) of
           Inl e \<Rightarrow> (Inl (ErrorProcessingFile e), s)
         | Inr parsed \<Rightarrow>
             if df_empty parsed then (Inl FileEmpty, s)
             else if length (df_columns parsed) < 2 then (Inl TooFewColumns, s)
             else
               (let df = replace_inf parsed;
                    s' = s\<lparr>original_df := Some df,
                           processed_df := Some df,
                           transformations_applied := [],
                           X_train := None,
                           X_test := None,
                           y_train := None,
                           y_test := None,
                           model := None\<rparr>;
                    nan_count = nan_count_of df
                in (case JSONResponse
                          (UploadOk (filename file) nan_count (dataset_info_of df) (df_to_json df)) of
                      Inl e \<Rightarrow> (Inl (ErrorProcessingFile e), s')
                    | Inr r \<Rightarrow> (Inr r, s')))))"

section \<open>Inspecting the dataset\<close>

definition get_dataset ::
  "'p session_state \<Rightarrow> (error + response) \<times> 'p session_state"
where
  "get_dataset s =
     (case processed_df s of
        None \<Rightarrow> (Inl NoDatasetUploaded, s)
      | Some df \<Rightarrow>
          (case JSONResponse
                  (DatasetOk (dataset_info_of df) (df_to_json df) (transformations_applied s)) of
             Inl e \<Rightarrow> (Inl (InternalServerError e), s)
           | Inr r \<Rightarrow> (Inr r, s)))"

section \<open>Preprocessing\<close>

definition column_is_numeric :: "table \<Rightarrow> string \<Rightarrow> bool" where
  "column_is_numeric df col =
     (case get_column df col of
        None \<Rightarrow> False
      | Some c \<Rightarrow> issubdtype_number (dtype c))"

definition select_scaler :: "string \<Rightarrow> error + scaler \<times> string" where
  "select_scaler m =
     (if m = ''standardize'' then Inr (StandardScaler, ''StandardScaler (z-score normalization)'')
      else if m = ''normalize'' then Inr (MinMaxScaler, ''MinMaxScaler (0-1 normalization)'')
      else Inl InvalidMethod)"

text \<open>
  \<^verbatim>\<open>df[cols] = array\<close>: pandas raises unless the array has one column per key and
  one entry per row, and then assigns the columns one key at a time.
\<close>

definition set_column :: "table \<Rightarrow> string \<Rightarrow> pyfloat list \<Rightarrow> table" where
  "set_column df col v =
     map (\<lambda>c. if name c = col then c\<lparr>dtype := Float64, vals := map FloatV v\<rparr> else c) df"

definition set_columns :: "table \<Rightarrow> string list \<Rightarrow> pyfloat list list \<Rightarrow> error + table" where
  "set_columns df cols arr =
     (if length arr = length cols \<and> list_all (\<lambda>v. length v = len_df df) arr
      then Inr (foldl (\<lambda>d (col, v). set_column d col v) df (zip cols arr))
      else Inl (Exception ''Columns must be same length as key''))"

definition preprocess_data ::
  "'p library \<Rightarrow> 'p session_state \<Rightarrow> PreprocessRequest
     \<Rightarrow> (error + response) \<times> 'p session_state"
where
  "preprocess_data L s request =
     (case processed_df s of
        None \<Rightarrow> (Inl NoDatasetUploaded, s)
      | Some df \<Rightarrow>
          (let invalid_cols = filter (\<lambda>col. col \<notin> set (df_columns df)) (columns request) in
           if invalid_cols \<noteq> [] then (Inl (InvalidColumns invalid_cols (df_columns df)), s)
           else
             (let non_numeric = filter (\<lambda>col. \<not> column_is_numeric df col) (columns request) in
              if non_numeric \<noteq> [] then (Inl (ColumnsNotNumeric non_numeric), s)
              else
                (case select_scaler (req_method request) of
                   Inl e \<Rightarrow> (Inl (ErrorDuringPreprocessing e), s)
                 | Inr (scaler, method_name) \<Rightarrow>
                     (case call (fit_transform L scaler (select_columns df (columns request))) of
                        Inl e \<Rightarrow> (Inl (ErrorDuringPreprocessing e), s)
                      | Inr arr \<Rightarrow>
                          (case set_columns df (columns request) arr of
                             Inl e \<Rightarrow> (Inl (ErrorDuringPreprocessing e), s)
                           | Inr df' \<Rightarrow>
                               (let transformation_msg = Applied method_name (columns request);
                                    s' = s\<lparr>processed_df := Some df',
                                           transformations_applied :=
                                             transformations_applied s @ [transformation_msg]\<rparr>
                                in (case JSONResponse
                                          (PreprocessOk transformation_msg (df_to_json df')
                                             (transformations_applied s')) of
                                      Inl e \<Rightarrow> (Inl (ErrorDuringPreprocessing e), s')
                                    | Inr r \<Rightarrow> (Inr r, s')))))))))"

definition reset_preprocessing ::
  "'p session_state \<Rightarrow> (error + response) \<times> 'p session_state"
where
  "reset_preprocessing s =
     (case original_df s of
        None \<Rightarrow> (Inl NoDataset, s)
      | Some df \<Rightarrow>
          (let s' = s\<lparr>processed_df := Some df, transformations_applied := []\<rparr> in
           case JSONResponse (ResetPreprocessingOk (df_to_json df)) of
             Inl e \<Rightarrow> (Inl (InternalServerError e), s')
           | Inr r \<Rightarrow> (Inr r, s')))"

section \<open>Train-test split\<close>

text \<open>
  The loop over the feature columns: a column whose dtype is object is replaced by its
  codes, which are of dtype int64.
\<close>

definition set_codes :: "table \<Rightarrow> string \<Rightarrow> int list \<Rightarrow> table" where
  "set_codes X col codes =
     map (\<lambda>c. if name c = col then c\<lparr>dtype := Int64, vals := map IntV codes\<rparr> else c) X"

fun encode_columns :: "string list \<Rightarrow> table \<Rightarrow> table" where
  "encode_columns [] X_encoded = X_encoded"
| "encode_columns (col # cols) X_encoded =
     encode_columns cols
       (case get_column X_encoded col of
          None \<Rightarrow> X_encoded
        | Some c \<Rightarrow>
            if dtype c = Object then set_codes X_encoded col (factorize (vals c))
            else X_encoded)"

definition encode_features :: "table \<Rightarrow> table" where
  "encode_features X = encode_columns (df_columns X) X"

text \<open>
  \<^verbatim>\<open>int(x * 100)\<close> on a float: truncation, and an exception on NaN and the infinities.
  The arithmetic is exact here, where the source rounds to a double.
\<close>

definition percent :: "pyfloat \<Rightarrow> error + int" where
  "percent x =
     (case x of
        Finite r \<Rightarrow> Inr (if 0 \<le> r then \<lfloor>r * 100\<rfloor> else \<lceil>r * 100\<rceil>)
      | _ \<Rightarrow> Inl (Exception ''cannot convert float to integer''))"

definition one_minus :: "pyfloat \<Rightarrow> pyfloat" where
  "one_minus x =
     (case x of Finite r \<Rightarrow> Finite (1 - r) | PosInf \<Rightarrow> NegInf | NegInf \<Rightarrow> PosInf | NaN \<Rightarrow> NaN)"

definition split_data ::
  "'p library \<Rightarrow> 'p session_state \<Rightarrow> SplitRequest \<Rightarrow> (error + response) \<times> 'p session_state"
where
  "split_data L s request =
     (case request of SplitRequest target test_size seed \<Rightarrow>
      (case processed_df s of
         None \<Rightarrow> (Inl NoDatasetUploaded, s)
       | Some df \<Rightarrow>
           if target \<notin> set (df_columns df)
           then (Inl (TargetNotFound target (df_columns df)), s)
           else if \<not> (py_le (Finite (1 / 10)) test_size \<and> py_le test_size (Finite (1 / 2)))
           then (Inl TestSizeOutOfRange, s)
           else
             (let X = drop_column df target in
              case get_column df target of
                None \<Rightarrow> (Inl (ErrorDuringSplit (Exception target)), s)
              | Some y \<Rightarrow>
                  (let X_encoded = encode_features X in
                   case call (train_test_split L X_encoded y test_size seed
                                (if length (unique (vals y)) > 1 then Some y else None)) of
                     Inl e \<Rightarrow> (Inl (ErrorDuringSplit e), s)
                   | Inr (Xtr, Xte, ytr, yte) \<Rightarrow>
                       (let s' = s\<lparr>X_train := Some Xtr,
                                   X_test := Some Xte,
                                   y_train := Some ytr,
                                   y_test := Some yte,
                                   target_column := Some target,
                                   feature_columns := Some (df_columns X),
                                   model := None,
                                   model_name := None\<rparr>
                        in case percent (one_minus test_size) of
                             Inl e \<Rightarrow> (Inl (ErrorDuringSplit e), s')
                           | Inr train_pct \<Rightarrow>
                               (case percent test_size of
                                  Inl e \<Rightarrow> (Inl (ErrorDuringSplit e), s')
                                | Inr test_pct \<Rightarrow>
                                    (case JSONResponse
                                            (SplitOk
                                               \<lparr>train_samples = len_df Xtr,
                                                test_samples = len_df Xte,
                                                train_ratio = train_pct,
                                                test_ratio = test_pct,
                                                split_target_column = target,
                                                split_feature_columns = df_columns X,
                                                num_features = length (df_columns X),
                                                target_classes = unique (vals y)\<rparr>) of
                                       Inl e \<Rightarrow> (Inl (ErrorDuringSplit e), s')
                                     | Inr r \<Rightarrow> (Inr r, s'))))))))"

section \<open>Training\<close>

definition select_model :: "string \<Rightarrow> error + classifier \<times> string" where
  "select_model t =
     (if t = ''logistic_regression'' then Inr (LogisticRegression 1000 42, ''Logistic Regression'')
      else if t = ''decision_tree''
      then Inr (DecisionTreeClassifier 5 42, ''Decision Tree Classifier'')
      else Inl InvalidModelType)"

text \<open>
  \<^verbatim>\<open>model.fit(X_train, y_train)\<close>; without labels the estimator raises.
\<close>

definition fit_model ::
  "'p library \<Rightarrow> classifier \<Rightarrow> table \<Rightarrow> series option \<Rightarrow> error + 'p"
where
  "fit_model L clf X y =
     (case y of
        None \<Rightarrow> Inl (Exception ''y is None'')
      | Some labels \<Rightarrow> call (fit L clf X labels))"

definition train_model ::
  "'p library \<Rightarrow> 'p session_state \<Rightarrow> TrainRequest \<Rightarrow> (error + response) \<times> 'p session_state"
where
  "train_model L s request =
     (case X_train s of
        None \<Rightarrow> (Inl DataNotSplit, s)
      | Some Xtr \<Rightarrow>
          (case select_model (model_type request) of
             Inl e \<Rightarrow> (Inl (ErrorDuringTraining e), s)
           | Inr (clf, mname) \<Rightarrow>
               (case fit_model L clf Xtr (y_train s) of
                  Inl e \<Rightarrow> (Inl (ErrorDuringTraining e), s)
                | Inr fitted \<Rightarrow>
                    (let s' = s\<lparr>model := Some (clf, fitted), model_name := Some mname\<rparr> in
                     case JSONResponse
                            (TrainOk
                               \<lparr>info_model_type = model_type request,
                                info_model_name = mname,
                                training_samples = len_df Xtr,
                                features_used = feature_columns s'\<rparr>) of
                       Inl e \<Rightarrow> (Inl (ErrorDuringTraining e), s')
                     | Inr r \<Rightarrow> (Inr r, s')))))"

section \<open>Evaluation\<close>

text \<open>
  The body of the \<^verbatim>\<open>try\<close> block of \<^verbatim>\<open>get_results\<close>: prediction, accuracy, confusion
  matrix, and the two plots, the second chosen by the class of the estimator.
\<close>

definition model_visualization ::
  "'p library \<Rightarrow> classifier \<times> 'p \<Rightarrow> string list option \<Rightarrow> series
     \<Rightarrow> error + (string \<times> string) option"
where
  "model_visualization L m feature_cols yte =
     (case m of
        (DecisionTreeClassifier _ _, fitted) \<Rightarrow>
          (case call (plot_decision_tree L fitted feature_cols yte) of
             Inl e \<Rightarrow> Inl e
           | Inr img \<Rightarrow> Inr (if img = [] then None else Some (''Decision Tree Structure'', img)))
      | (LogisticRegression _ _, fitted) \<Rightarrow>
          (case call (plot_feature_importance L fitted feature_cols) of
             Inl e \<Rightarrow> Inl e
           | Inr img \<Rightarrow> Inr (if img = [] then None else Some (''Feature Importance'', img))))"

definition evaluate_model ::
  "'p library \<Rightarrow> 'p session_state \<Rightarrow> classifier \<times> 'p \<Rightarrow> error + response"
where
  "evaluate_model L s m =
     (case (X_test s, y_test s) of
        (Some Xte, Some yte) \<Rightarrow>
          (case call (predict L m Xte) of
             Inl e \<Rightarrow> Inl e
           | Inr y_pred \<Rightarrow>
               (case call (accuracy_score L (vals yte) y_pred) of
                  Inl e \<Rightarrow> Inl e
                | Inr acc \<Rightarrow>
                    (case call (confusion_matrix L (vals yte) y_pred) of
                       Inl e \<Rightarrow> Inl e
                     | Inr cm \<Rightarrow>
                         (case call (plot_confusion_matrix L cm yte) of
                            Inl e \<Rightarrow> Inl e
                          | Inr cm_image \<Rightarrow>
                              (case model_visualization L m (feature_columns s) yte of
                                 Inl e \<Rightarrow> Inl e
                               | Inr viz \<Rightarrow>
                                   JSONResponse
                                     (ResultsOk
                                        \<lparr>results_model_name = model_name s,
                                         accuracy = acc,
                                         results_test_samples = length (vals yte),
                                         confusion = cm,
                                         confusion_image = cm_image,
                                         model_specific = viz\<rparr>))))))
      | _ \<Rightarrow> Inl (Exception ''test partition is None''))"

definition get_results ::
  "'p library \<Rightarrow> 'p session_state \<Rightarrow> (error + response) \<times> 'p session_state"
where
  "get_results L s =
     (case model s of
        None \<Rightarrow> (Inl NoModelTrained, s)
      | Some m \<Rightarrow>
          (case evaluate_model L s m of
             Inl e \<Rightarrow> (Inl (ErrorGeneratingResults e), s)
           | Inr r \<Rightarrow> (Inr r, s)))"

section \<open>Status and reset\<close>

definition get_pipeline_status :: "'p session_state \<Rightarrow> pipeline_status" where
  "get_pipeline_status s =
     \<lparr>upload_flag = (original_df s \<noteq> None),
      preprocess_flag = (length (transformations_applied s) > 0),
      split_flag = (X_train s \<noteq> None),
      train_flag = (model s \<noteq> None),
      results_flag = (model s \<noteq> None),
      details =
        \<lparr>dataset_rows = (case original_df s of None \<Rightarrow> 0 | Some df \<Rightarrow> len_df df),
         transformations = transformations_applied s,
         details_model_name = model_name s,
         details_target_column = target_column s\<rparr>\<rparr>"

definition reset_pipeline ::
  "'p session_state \<Rightarrow> (error + response) \<times> 'p session_state"
where
  "reset_pipeline s = (Inr ResetOk, initial_state)"

section \<open>Requests and runs\<close>

datatype request =
    Upload upload_file
  | Describe
  | Preprocess PreprocessRequest
  | ResetPreprocessing
  | Split SplitRequest
  | Train TrainRequest
  | Evaluate
  | Status
  | ResetAll

fun handle ::
  "'p library \<Rightarrow> 'p session_state \<Rightarrow> request \<Rightarrow> (error + response) \<times> 'p session_state"
where
  "handle L s (Upload file) = upload_dataset L s file"
| "handle L s Describe = get_dataset s"
| "handle L s (Preprocess r) = preprocess_data L s r"
| "handle L s ResetPreprocessing = reset_preprocessing s"
| "handle L s (Split r) = split_data L s r"
| "handle L s (Train r) = train_model L s r"
| "handle L s Evaluate = get_results L s"
| "handle L s Status = (Inr (StatusOk (get_pipeline_status s)), s)"
| "handle L s ResetAll = reset_pipeline s"

text \<open>The session after a sequence of requests, each served to completion.\<close>

fun run :: "'p library \<Rightarrow> 'p session_state \<Rightarrow> request list \<Rightarrow> 'p session_state" where
  "run L s [] = s"
| "run L s (r # rs) = run L (snd (handle L s r)) rs"

section \<open>Notions used by the properties\<close>

text \<open>The fields downstream of the dataset: the split and the trained model.\<close>

definition split_of ::
  "'p session_state
     \<Rightarrow> table option \<times> table option \<times> series option \<times> series option
        \<times> string option \<times> string list option"
where
  "split_of s =
     (X_train s, X_test s, y_train s, y_test s, target_column s, feature_columns s)"

definition trained_model_of ::
  "'p session_state \<Rightarrow> (classifier \<times> 'p) option \<times> string option"
where
  "trained_model_of s = (model s, model_name s)"

text \<open>An error response of a given kind.\<close>

definition fails_with :: "(error + response) \<times> 'p session_state \<Rightarrow> error_kind \<Rightarrow> bool" where
  "fails_with res k = (case fst res of Inl e \<Rightarrow> kind_of e = k | Inr _ \<Rightarrow> False)"

definition succeeds :: "(error + response) \<times> 'p session_state \<Rightarrow> bool" where
  "succeeds res = (case fst res of Inl _ \<Rightarrow> False | Inr _ \<Rightarrow> True)"

text \<open>Every requested column is one of the frame's columns and is numeric.\<close>

definition columns_valid :: "table \<Rightarrow> string list \<Rightarrow> bool" where
  "columns_valid df cols =
     list_all (\<lambda>col. col \<in> set (df_columns df) \<and> column_is_numeric df col) cols"

text \<open>
  First-seen-order encoding, as the specification words it: the code of a value is the
  number of distinct values that occur before its first occurrence. A missing value has
  the code -1 and is not a value.
\<close>

definition first_seen_codes :: "cell list \<Rightarrow> int list" where
  "first_seen_codes vs =
     map (\<lambda>v. if isna v then - 1
              else int (length (remdups (filter (\<lambda>x. \<not> isna x) (takeWhile (\<lambda>x. x \<noteq> v) vs)))))
       vs"

text \<open>What the encoding loop does to one feature column.\<close>

definition encode_column :: "series \<Rightarrow> series" where
  "encode_column c =
     (if dtype c = Object then c\<lparr>dtype := Int64, vals := map IntV (first_seen_codes (vals c))\<rparr>
      else c)"

section \<open>A small library for running the model\<close>

text \<open>
  A concrete library, used to run the endpoints on concrete inputs. It knows three files. Its
  scalers reject a selection without columns, as scikit-learn does, and its standard scaler
  only centres a column; its partition takes the last rows as the test set; fitting keeps
  the training data.
\<close>

definition sample_table :: table where
  "sample_table =
     [\<lparr>name = ''x'', dtype = Int64, vals = [IntV 1, IntV 3, IntV 5, IntV 9]\<rparr>,
      \<lparr>name = ''city'', dtype = Object,
        vals = [StrV ''b'', StrV ''a'', FloatV NaN, StrV ''b'']\<rparr>,
      \<lparr>name = ''flag'', dtype = Bool,
        vals = [BoolV True, BoolV False, BoolV True, BoolV False]\<rparr>,
      \<lparr>name = ''y'', dtype = Int64, vals = [IntV 0, IntV 1, IntV 0, IntV 1]\<rparr>]"

definition gap_table :: table where
  "gap_table =
     [\<lparr>name = ''a'', dtype = Int64, vals = [IntV 0, IntV 1, IntV 0, IntV 1]\<rparr>,
      \<lparr>name = ''b'', dtype = Float64,
        vals = [FloatV NaN, FloatV NaN, FloatV NaN, FloatV NaN]\<rparr>]"

definition plain_table :: table where
  "plain_table =
     [\<lparr>name = ''u'', dtype = Int64, vals = [IntV 7, IntV 8]\<rparr>,
      \<lparr>name = ''v'', dtype = Int64, vals = [IntV 0, IntV 1]\<rparr>]"

definition stub_parse :: "string \<Rightarrow> string + table" where
  "stub_parse text =
     (if text = ''sample'' then Inr sample_table
      else if text = ''gap'' then Inr gap_table
      else if text = ''plain'' then Inr plain_table
      else Inl ''No columns to parse from file'')"

fun cell_float :: "cell \<Rightarrow> pyfloat" where
  "cell_float (IntV i) = Finite (of_int i)"
| "cell_float (FloatV f) = f"
| "cell_float (BoolV b) = Finite (if b then 1 else 0)"
| "cell_float (StrV _) = NaN"

fun finite_values :: "pyfloat list \<Rightarrow> real list" where
  "finite_values [] = []"
| "finite_values (Finite r # fs) = r # finite_values fs"
| "finite_values (_ # fs) = finite_values fs"

definition rescale :: "real \<Rightarrow> real \<Rightarrow> pyfloat \<Rightarrow> pyfloat" where
  "rescale shift width f =
     (case f of Finite r \<Rightarrow> Finite ((r - shift) / (if width = 0 then 1 else width)) | _ \<Rightarrow> f)"

definition stub_scale :: "scaler \<Rightarrow> series \<Rightarrow> pyfloat list" where
  "stub_scale sc c =
     (let fs = map cell_float (vals c); rs = finite_values fs in
      case rs of
        [] \<Rightarrow> fs
      | r # _ \<Rightarrow>
          (case sc of
             MinMaxScaler \<Rightarrow>
               (let lo = fold min rs r; hi = fold max rs r in map (rescale lo (hi - lo)) fs)
           | StandardScaler \<Rightarrow>
               (let mean = sum_list rs / of_nat (length rs) in map (rescale mean 1) fs)))"

definition stub_fit_transform :: "scaler \<Rightarrow> table \<Rightarrow> string + pyfloat list list" where
  "stub_fit_transform sc X =
     (if X = [] then Inl ''at least one array or dtype is required''
      else Inr (map (stub_scale sc) X))"

definition stub_train_test_split ::
  "table \<Rightarrow> series \<Rightarrow> pyfloat \<Rightarrow> int \<Rightarrow> series option
     \<Rightarrow> string + (table \<times> table \<times> series \<times> series)"
where
  "stub_train_test_split X y test_size seed stratify =
     (case test_size of
        Finite r \<Rightarrow>
          (let n = length (vals y);
               n_test = nat \<lceil>r * of_nat n\<rceil>;
               n_train = n - n_test
           in if n_train = 0 \<or> n_test = 0 then Inl ''the resulting train set will be empty''
              else Inr (map (\<lambda>c. c\<lparr>vals := take n_train (vals c)\<rparr>) X,
                        map (\<lambda>c. c\<lparr>vals := drop n_train (vals c)\<rparr>) X,
                        y\<lparr>vals := take n_train (vals y)\<rparr>,
                        y\<lparr>vals := drop n_train (vals y)\<rparr>))
      | _ \<Rightarrow> Inl ''test_size must be a number'')"

definition stub_fit :: "classifier \<Rightarrow> table \<Rightarrow> series \<Rightarrow> string + (table \<times> series)" where
  "stub_fit clf X y =
     (if length (unique (vals y)) < 2
      then Inl ''needs samples of at least 2 classes in the data''
      else Inr (X, y))"

definition stub_predict ::
  "classifier \<times> (table \<times> series) \<Rightarrow> table \<Rightarrow> string + cell list"
where
  "stub_predict m X =
     (case vals (snd (snd m)) of
        [] \<Rightarrow> Inl ''not fitted''
      | v # _ \<Rightarrow> Inr (replicate (len_df X) v))"

definition stub_accuracy_score :: "cell list \<Rightarrow> cell list \<Rightarrow> string + real" where
  "stub_accuracy_score y_true y_pred =
     (if length y_true \<noteq> length y_pred \<or> y_true = [] then Inl ''inconsistent numbers of samples''
      else Inr (of_nat (length (filter (\<lambda>(a, b). a = b) (zip y_true y_pred)))
                / of_nat (length y_true)))"

definition stub_confusion_matrix :: "cell list \<Rightarrow> cell list \<Rightarrow> string + nat list list" where
  "stub_confusion_matrix y_true y_pred =
     (let labels = unique (y_true @ y_pred) in
      Inr (map (\<lambda>t. map (\<lambda>p. length (filter (\<lambda>(a, b). a = t \<and> b = p) (zip y_true y_pred)))
                      labels) labels))"

definition stub_library :: "(table \<times> series) library" where
  "stub_library =
     \<lparr>read_csv = stub_parse,
      read_excel = stub_parse,
      fit_transform = stub_fit_transform,
      train_test_split = stub_train_test_split,
      fit = stub_fit,
      predict = stub_predict,
      accuracy_score = stub_accuracy_score,
      confusion_matrix = stub_confusion_matrix,
      plot_confusion_matrix = (\<lambda>cm y. Inr ''png''),
      plot_decision_tree = (\<lambda>fitted cols y. Inr ''png''),
      plot_feature_importance = (\<lambda>fitted cols. Inr ''png'')\<rparr>"

definition sample_file :: upload_file where
  "sample_file = \<lparr>filename = ''Sample.CSV'', content = ''sample''\<rparr>"

definition gap_file :: upload_file where
  "gap_file = \<lparr>filename = ''gap.csv'', content = ''gap''\<rparr>"

definition plain_file :: upload_file where
  "plain_file = \<lparr>filename = ''plain.csv'', content = ''plain''\<rparr>"



text \<open>The session of the small library after an upload, and after a split and a training.\<close>

definition pipeline_requests :: "request list" where
  "pipeline_requests =
     [Upload sample_file, Split (SplitRequest ''y'' (Finite (1 / 2)) 42),
      Train (TrainRequest ''decision_tree'')]"

definition uploaded_session :: "(table \<times> series) session_state" where
  "uploaded_session =
     initial_state\<lparr>original_df := Some sample_table, processed_df := Some sample_table\<rparr>"

definition gap_uploaded :: "(table \<times> series) session_state" where
  "gap_uploaded =
     initial_state\<lparr>original_df := Some gap_table, processed_df := Some gap_table\<rparr>"

definition trained_session :: "(table \<times> series) session_state" where
  "trained_session =
     \<lparr>original_df = Some sample_table, processed_df = Some sample_table,
      X_train = Some
        [\<lparr>name = ''x'', dtype = Int64, vals = [IntV 1, IntV 3]\<rparr>,
         \<lparr>name = ''city'', dtype = Int64, vals = [IntV 0, IntV 1]\<rparr>,
         \<lparr>name = ''flag'', dtype = Bool, vals = [BoolV True, BoolV False]\<rparr>],
      X_test = Some
        [\<lparr>name = ''x'', dtype = Int64, vals = [IntV 5, IntV 9]\<rparr>,
         \<lparr>name = ''city'', dtype = Int64, vals = [IntV (- 1), IntV 0]\<rparr>,
         \<lparr>name = ''flag'', dtype = Bool, vals = [BoolV True, BoolV False]\<rparr>],
      y_train = Some \<lparr>name = ''y'', dtype = Int64, vals = [IntV 0, IntV 1]\<rparr>,
      y_test = Some \<lparr>name = ''y'', dtype = Int64, vals = [IntV 0, IntV 1]\<rparr>,
      target_column = Some ''y'',
      feature_columns = Some [''x'', ''city'', ''flag''],
      model = Some
        (DecisionTreeClassifier 5 42,
         [\<lparr>name = ''x'', dtype = Int64, vals = [IntV 1, IntV 3]\<rparr>,
          \<lparr>name = ''city'', dtype = Int64, vals = [IntV 0, IntV 1]\<rparr>,
          \<lparr>name = ''flag'', dtype = Bool, vals = [BoolV True, BoolV False]\<rparr>],
         \<lparr>name = ''y'', dtype = Int64, vals = [IntV 0, IntV 1]\<rparr>),
      model_name = Some ''Decision Tree Classifier'',
      transformations_applied = []\<rparr>"






text \<open>The code of one value within a list of values, and one round of the encoding loop.\<close>

definition code_in :: "cell list \<Rightarrow> cell \<Rightarrow> int" where
  "code_in l v =
     (if isna v then - 1
      else int (length (remdups (filter (\<lambda>x. \<not> isna x) (takeWhile (\<lambda>x. x \<noteq> v) l)))))"

definition encode_step :: "string \<Rightarrow> table \<Rightarrow> table" where
  "encode_step col X =
     (case get_column X col of
        None \<Rightarrow> X
      | Some c \<Rightarrow> if dtype c = Object then set_codes X col (factorize (vals c)) else X)"

section \<open>Facts about the model\<close>

subsection \<open>Responses and their serialisation\<close>

lemma JSONResponse_train [simp]: "JSONResponse (TrainOk i) = Inr (TrainOk i)"
  by (simp add: JSONResponse_def)

lemma JSONResponse_results [simp]: "JSONResponse (ResultsOk i) = Inr (ResultsOk i)"
  by (simp add: JSONResponse_def)

lemma JSONResponse_cases:
  "JSONResponse r = Inr r \<and> json_compliant r
   \<or> JSONResponse r = Inl not_json_compliant \<and> \<not> json_compliant r"
  by (simp add: JSONResponse_def)

lemma JSONResponse_preview:
  "json_preview_ok (df_to_json df) \<Longrightarrow>
     JSONResponse (UploadOk f n i (df_to_json df)) = Inr (UploadOk f n i (df_to_json df))
     \<and> JSONResponse (DatasetOk i (df_to_json df) ts) = Inr (DatasetOk i (df_to_json df) ts)
     \<and> JSONResponse (PreprocessOk d (df_to_json df) ts) = Inr (PreprocessOk d (df_to_json df) ts)
     \<and> JSONResponse (ResetPreprocessingOk (df_to_json df))
         = Inr (ResetPreprocessingOk (df_to_json df))"
  by (simp add: JSONResponse_def)

subsection \<open>Failing calls\<close>

text \<open>
  Every endpoint checks before it writes, so a failing call leaves the session as it was,
  with one exception: the response is built after the session is written, and a response
  that cannot be serialised turns the call into a failing one. That happens in a split
  whose target column has a missing value, and in an upload, a preprocessing and a reset
  whose preview has a missing value in a column that is not of dtype object.
\<close>

lemma upload_failure:
  "fst (upload_dataset L s f) = Inl e \<Longrightarrow>
     snd (upload_dataset L s f) = s \<or> e = ErrorProcessingFile not_json_compliant"
  using JSONResponse_cases
  by (auto simp: upload_dataset_def Let_def JSONResponse_def split: sum.splits if_splits)

lemma get_dataset_state: "snd (get_dataset s) = s"
  by (simp add: get_dataset_def split: option.splits sum.splits)

lemma preprocess_failure:
  "fst (preprocess_data L s request) = Inl e \<Longrightarrow>
     snd (preprocess_data L s request) = s \<or> e = ErrorDuringPreprocessing not_json_compliant"
  by (auto simp: preprocess_data_def Let_def JSONResponse_def
           split: option.splits sum.splits if_splits prod.splits)

lemma reset_preprocessing_failure:
  "fst (reset_preprocessing s) = Inl e \<Longrightarrow>
     snd (reset_preprocessing s) = s \<or> e = InternalServerError not_json_compliant"
  by (auto simp: reset_preprocessing_def Let_def JSONResponse_def split: option.splits if_splits)

lemma train_failure:
  "fst (train_model L s request) = Inl e \<Longrightarrow> snd (train_model L s request) = s"
  by (auto simp: train_model_def Let_def split: option.splits sum.splits prod.splits)

lemma get_results_state: "snd (get_results L s) = s"
  by (simp add: get_results_def split: option.splits sum.splits)

lemma split_failure:
  assumes "fst (split_data L s request) = Inl e"
  shows "snd (split_data L s request) = s
       \<or> (e = ErrorDuringSplit not_json_compliant
           \<and> X_train (snd (split_data L s request)) \<noteq> None
           \<and> model (snd (split_data L s request)) = None)"
proof (cases request)
  case (SplitRequest target ts seed)
  with assms show ?thesis
    by (cases ts)
       (auto simp: split_data_def Let_def JSONResponse_def percent_def one_minus_def
             split: option.splits sum.splits if_splits prod.splits)
qed

lemma failure_leaves_session:
  assumes "fst (handle L s r) = Inl e"
  shows "snd (handle L s r) = s
       \<or> e \<in> {ErrorProcessingFile not_json_compliant, ErrorDuringPreprocessing not_json_compliant,
              InternalServerError not_json_compliant, ErrorDuringSplit not_json_compliant}"
proof (cases r)
  case (Upload f)
  with assms upload_failure [of L s f e] show ?thesis by auto
next
  case (Preprocess t)
  with assms preprocess_failure [of L s t e] show ?thesis by auto
next
  case ResetPreprocessing
  with assms reset_preprocessing_failure [of s e] show ?thesis by auto
next
  case (Split t)
  with assms split_failure [of L s t e] show ?thesis by auto
next
  case (Train t)
  with assms train_failure [of L s t e] show ?thesis by auto
qed (insert assms, simp_all add: get_dataset_state get_results_state reset_pipeline_def)

subsection \<open>What each request does to the split and to the model\<close>

lemma run_snoc: "run L s (rs @ [r]) = snd (handle L (run L s rs) r)"
  by (induction rs arbitrary: s) simp_all



lemma upload_keeps_names:
  "target_column (snd (upload_dataset L s f)) = target_column s
   \<and> feature_columns (snd (upload_dataset L s f)) = feature_columns s
   \<and> model_name (snd (upload_dataset L s f)) = model_name s"
  by (simp add: upload_dataset_def Let_def split: sum.splits)

lemma upload_success:
  assumes "upload_dataset L s f = (Inr r, s')"
  shows "(\<exists>df. original_df s' = Some df \<and> json_preview_ok (df_to_json df))
       \<and> processed_df s' = original_df s'
       \<and> transformations_applied s' = []
       \<and> X_train s' = None \<and> X_test s' = None \<and> y_train s' = None \<and> y_test s' = None
       \<and> model s' = None"
  using assms
  by (auto simp: upload_dataset_def Let_def JSONResponse_def split: sum.splits if_splits)

lemma preprocess_downstream:
  "split_of (snd (preprocess_data L s request)) = split_of s
   \<and> trained_model_of (snd (preprocess_data L s request)) = trained_model_of s"
  by (simp add: preprocess_data_def split_of_def trained_model_of_def Let_def
           split: option.splits sum.splits prod.splits)

lemma reset_preprocessing_downstream:
  "split_of (snd (reset_preprocessing s)) = split_of s
   \<and> trained_model_of (snd (reset_preprocessing s)) = trained_model_of s"
  by (simp add: reset_preprocessing_def split_of_def trained_model_of_def Let_def
           split: option.splits sum.splits prod.splits)

lemma preprocess_original:
  "original_df (snd (preprocess_data L s request)) = original_df s"
  by (simp add: preprocess_data_def Let_def split: option.splits sum.splits prod.splits)

lemma run_preprocess_original:
  "original_df (run L s (map Preprocess reqs)) = original_df s"
  by (induction reqs arbitrary: s) (simp_all add: preprocess_original)

lemma reset_preprocessing_effect:
  assumes "original_df s = Some df"
  shows "snd (reset_preprocessing s) = s\<lparr>processed_df := Some df, transformations_applied := []\<rparr>
       \<and> (json_preview_ok (df_to_json df) \<longrightarrow> succeeds (reset_preprocessing s))"
  using assms
  by (simp add: reset_preprocessing_def succeeds_def Let_def JSONResponse_def split: sum.splits)













subsection \<open>Runs of the small library\<close>

lemmas stub_defs = stub_library_def stub_parse_def stub_fit_transform_def
  stub_train_test_split_def stub_fit_def stub_scale_def rescale_def sample_table_def
  gap_table_def plain_table_def sample_file_def gap_file_def plain_file_def

lemmas text_defs = lower_def lower_char_def endswith_def

lemmas frame_defs = df_empty_def len_df_def df_columns_def replace_inf_def isna_def
  get_column_def select_columns_def drop_column_def column_is_numeric_def set_column_def
  set_columns_def set_codes_def encode_features_def factorize_def

lemmas preview_defs = JSONResponse_def not_json_compliant_def json_preview_ok_def
  df_to_json_def json_cell_def

text \<open>
  The first file has a missing value in an object column only, and its upload succeeds.
  The second has a float64 column without values: its upload stores the frame and then
  fails to build the response.
\<close>

lemma upload_sample:
  "upload_dataset stub_library initial_state sample_file =
     (Inr (UploadOk ''Sample.CSV'' (nan_count_of sample_table) (dataset_info_of sample_table)
            (df_to_json sample_table)), uploaded_session)"
  unfolding upload_dataset_def uploaded_session_def
  by (simp add: stub_defs text_defs call_def frame_defs preview_defs initial_state_def Let_def)

lemma upload_gap:
  "upload_dataset stub_library initial_state gap_file
     = (Inl (ErrorProcessingFile not_json_compliant), gap_uploaded)"
  unfolding upload_dataset_def gap_uploaded_def
  by (simp add: stub_defs text_defs call_def frame_defs preview_defs initial_state_def Let_def)

lemma split_sample:
  "snd (split_data stub_library uploaded_session (SplitRequest ''y'' (Finite (1 / 2)) 42))
    = trained_session\<lparr>model := None, model_name := None\<rparr>"
  unfolding split_data_def uploaded_session_def trained_session_def
  by (simp add: stub_defs call_def frame_defs initial_state_def percent_def one_minus_def
        JSONResponse_def Let_def)

lemma train_sample:
  "train_model stub_library (trained_session\<lparr>model := None, model_name := None\<rparr>)
      (TrainRequest ''decision_tree'')
    = (Inr (TrainOk \<lparr>info_model_type = ''decision_tree'',
                     info_model_name = ''Decision Tree Classifier'',
                     training_samples = 2,
                     features_used = Some [''x'', ''city'', ''flag'']\<rparr>), trained_session)"
  unfolding train_model_def trained_session_def
  by (simp add: stub_defs call_def frame_defs select_model_def fit_model_def)

lemma run_pipeline: "run stub_library initial_state pipeline_requests = trained_session"
  by (simp add: pipeline_requests_def upload_sample split_sample train_sample)

lemma upload_plain_after_training:
  "upload_dataset stub_library trained_session plain_file =
     (Inr (UploadOk ''plain.csv'' (nan_count_of plain_table) (dataset_info_of plain_table)
            (df_to_json plain_table)),
      trained_session\<lparr>original_df := Some plain_table, processed_df := Some plain_table,
        X_train := None, X_test := None, y_train := None, y_test := None, model := None\<rparr>)"
  unfolding upload_dataset_def trained_session_def
  by (simp add: stub_defs text_defs call_def frame_defs preview_defs Let_def)

lemma preprocess_sample:
  "snd (preprocess_data stub_library uploaded_session (PreprocessRequest [''x''] ''normalize''))
    = uploaded_session
       \<lparr>processed_df := Some
          (\<lparr>name = ''x'', dtype = Float64,
            vals = [FloatV (Finite 0), FloatV (Finite (1 / 4)), FloatV (Finite (1 / 2)),
                    FloatV (Finite 1)]\<rparr> # tl sample_table),
        transformations_applied := [Applied ''MinMaxScaler (0-1 normalization)'' [''x'']]\<rparr>"
  unfolding preprocess_data_def uploaded_session_def
  by (simp add: stub_defs call_def frame_defs select_scaler_def initial_state_def Let_def
        split: sum.splits)

lemma preprocess_sample_succeeds:
  "succeeds (preprocess_data stub_library uploaded_session (PreprocessRequest [''x''] ''normalize''))"
  unfolding preprocess_data_def uploaded_session_def succeeds_def
  by (simp add: stub_defs call_def frame_defs preview_defs select_scaler_def initial_state_def
        Let_def)




subsection \<open>The encoding of the feature columns\<close>

text \<open>
  The loop of the library call, with its table of values seen so far, computes the
  first-seen-order codes; and the loop over the column names encodes each column on its
  own, when the names are distinct.
\<close>

lemma first_seen_codes_code_in: "first_seen_codes vs = map (code_in vs) vs"
  by (simp add: first_seen_codes_def code_in_def)

lemma index_of_takeWhile:
  "index_of v u = Some i \<Longrightarrow> length (takeWhile (\<lambda>x. x \<noteq> v) u) = i"
  by (induction u arbitrary: i) (auto split: if_splits)

lemma index_of_None: "index_of v u = None \<longleftrightarrow> v \<notin> set u"
  by (induction u) auto

lemma takeWhile_past:
  "w \<notin> set u \<Longrightarrow> takeWhile (\<lambda>x. x \<noteq> w) (u @ l) = u @ takeWhile (\<lambda>x. x \<noteq> w) l"
  by (induction u) auto

lemma code_in_seen:
  assumes "distinct u" "\<forall>x\<in>set u. \<not> isna x" "index_of v u = Some i"
  shows "code_in (u @ rest) v = int i"
proof -
  from assms(3) have mem: "v \<in> set u" using index_of_None [of v u] by auto
  then have tw: "takeWhile (\<lambda>x. x \<noteq> v) (u @ rest) = takeWhile (\<lambda>x. x \<noteq> v) u"
    by (simp add: takeWhile_append1)
  have sub: "set (takeWhile (\<lambda>x. x \<noteq> v) u) \<subseteq> set u" by (auto dest: set_takeWhileD)
  have f: "filter (\<lambda>x. \<not> isna x) (takeWhile (\<lambda>x. x \<noteq> v) u) = takeWhile (\<lambda>x. x \<noteq> v) u"
    using assms(2) sub by (auto simp: filter_id_conv)
  have d: "distinct (takeWhile (\<lambda>x. x \<noteq> v) u)" using assms(1) by (rule distinct_takeWhile)
  from mem assms(2) have "\<not> isna v" by auto
  then show ?thesis
    by (simp add: code_in_def tw f distinct_remdups_id [OF d] index_of_takeWhile [OF assms(3)])
qed

lemma code_in_new:
  assumes "distinct u" "\<forall>x\<in>set u. \<not> isna x" "v \<notin> set u" "\<not> isna v"
  shows "code_in (u @ v # rest) v = int (length u)"
proof -
  have tw: "takeWhile (\<lambda>x. x \<noteq> v) (u @ v # rest) = u"
    using assms(3) by (simp add: takeWhile_past)
  have f: "filter (\<lambda>x. \<not> isna x) u = u" using assms(2) by (auto simp: filter_id_conv)
  show ?thesis using assms(4) by (simp add: code_in_def tw f distinct_remdups_id [OF assms(1)])
qed

lemma code_in_skip:
  assumes "isna v \<or> v \<in> set u"
  shows "code_in (u @ v # rest) w = code_in (u @ rest) w"
proof (cases "isna w")
  case True
  then show ?thesis by (simp add: code_in_def)
next
  case False
  show ?thesis
  proof (cases "w \<in> set u")
    case True
    then show ?thesis by (simp add: code_in_def takeWhile_append1)
  next
    case False
    then have tw: "takeWhile (\<lambda>x. x \<noteq> w) (u @ l) = u @ takeWhile (\<lambda>x. x \<noteq> w) l" for l
      by (simp add: takeWhile_past)
    from assms \<open>\<not> isna w\<close> False have neq: "v \<noteq> w" by auto
    have "set (filter (\<lambda>x. \<not> isna x) (takeWhile (\<lambda>x. x \<noteq> w) (u @ v # rest)))
        = set (filter (\<lambda>x. \<not> isna x) (takeWhile (\<lambda>x. x \<noteq> w) (u @ rest)))"
      using assms neq by (auto simp: tw)
    then have "length (remdups (filter (\<lambda>x. \<not> isna x) (takeWhile (\<lambda>x. x \<noteq> w) (u @ v # rest))))
        = length (remdups (filter (\<lambda>x. \<not> isna x) (takeWhile (\<lambda>x. x \<noteq> w) (u @ rest))))"
      by (simp add: length_remdups_card_conv)
    with \<open>\<not> isna w\<close> show ?thesis by (simp add: code_in_def)
  qed
qed

lemma factorize_from_codes:
  assumes "distinct u" "\<forall>x\<in>set u. \<not> isna x"
  shows "factorize_from u vs = map (code_in (u @ vs)) vs"
  using assms
proof (induction vs arbitrary: u)
  case Nil
  show ?case by simp
next
  case (Cons v vs)
  show ?case
  proof (cases "isna v")
    case True
    then have "map (code_in (u @ v # vs)) vs = map (code_in (u @ vs)) vs"
      by (simp add: code_in_skip)
    with True Cons show ?thesis by (simp add: code_in_def)
  next
    case False
    show ?thesis
    proof (cases "index_of v u")
      case None
      then have new: "v \<notin> set u" by (simp add: index_of_None)
      with Cons.prems False have "distinct (u @ [v])" "\<forall>x\<in>set (u @ [v]). \<not> isna x" by auto
      from Cons.IH [OF this] have "factorize_from (u @ [v]) vs = map (code_in (u @ v # vs)) vs"
        by simp
      with None False code_in_new [OF Cons.prems new False] show ?thesis by simp
    next
      case (Some i)
      then have "v \<in> set u" using index_of_None [of v u] by auto
      then have "map (code_in (u @ v # vs)) vs = map (code_in (u @ vs)) vs"
        by (simp add: code_in_skip)
      with Some False Cons code_in_seen [OF Cons.prems Some] show ?thesis by simp
    qed
  qed
qed

lemma factorize_first_seen: "factorize vs = first_seen_codes vs"
  using factorize_from_codes [of "[]" vs]
  by (simp add: factorize_def first_seen_codes_code_in)

lemma get_column_None: "get_column X n = None \<longleftrightarrow> n \<notin> set (df_columns X)"
  by (auto simp: get_column_def df_columns_def find_None_iff)

lemma get_column_Some:
  assumes "distinct (df_columns X)" "c \<in> set X"
  shows "get_column X (name c) = Some c"
  using assms
  by (induction X) (auto simp: get_column_def df_columns_def)

lemma encode_step_map:
  assumes "distinct (df_columns X)"
  shows "encode_step n X = map (\<lambda>c. if name c = n then encode_column c else c) X"
proof (cases "get_column X n")
  case None
  then have "\<forall>c\<in>set X. name c \<noteq> n" by (auto simp: get_column_None df_columns_def)
  then have "map (\<lambda>c. if name c = n then encode_column c else c) X = map (\<lambda>c. c) X"
    by (intro map_cong) auto
  with None show ?thesis by (simp add: encode_step_def)
next
  case (Some c)
  have only: "c' = c" if "c' \<in> set X" "name c' = n" for c'
    using get_column_Some [OF assms that(1)] that(2) Some by simp
  show ?thesis
  proof (cases "dtype c = Object")
    case True
    have "set_codes X n (factorize (vals c))
        = map (\<lambda>c. if name c = n then encode_column c else c) X"
      unfolding set_codes_def
      using only True by (intro map_cong) (auto simp: encode_column_def factorize_first_seen)
    with Some True show ?thesis by (simp add: encode_step_def)
  next
    case False
    have "map (\<lambda>c. if name c = n then encode_column c else c) X = map (\<lambda>c. c) X"
      using only False by (intro map_cong) (auto simp: encode_column_def)
    with Some False show ?thesis by (simp add: encode_step_def)
  qed
qed

lemma name_encode_column [simp]: "name (encode_column c) = name c"
  by (simp add: encode_column_def)

lemma encode_columns_step: "encode_columns (n # ns) X = encode_columns ns (encode_step n X)"
  by (simp add: encode_step_def)

lemma encode_columns_map:
  assumes "distinct (df_columns X)" "distinct ns"
  shows "encode_columns ns X = map (\<lambda>c. if name c \<in> set ns then encode_column c else c) X"
  using assms
proof (induction ns arbitrary: X)
  case Nil
  show ?case by simp
next
  case (Cons n ns)
  let ?X' = "map (\<lambda>c. if name c = n then encode_column c else c) X"
  have names: "df_columns ?X' = df_columns X"
    by (simp add: df_columns_def comp_def if_distrib cong: if_cong)
  with Cons.prems have "distinct (df_columns ?X')" "distinct ns" by simp_all
  from Cons.IH [OF this]
  have "encode_columns ns ?X'
      = map (\<lambda>c. if name c \<in> set ns then encode_column c else c) ?X'" .
  also have "\<dots> = map (\<lambda>c. if name c \<in> set (n # ns) then encode_column c else c) X"
    using Cons.prems(2) by (auto simp: comp_def)
  finally show ?case
    by (simp only: encode_columns_step encode_step_map [OF Cons.prems(1)])
qed

lemma encode_features_map:
  assumes "distinct (df_columns X)"
  shows "encode_features X = map encode_column X"
proof -
  have "encode_features X = map (\<lambda>c. if name c \<in> set (df_columns X) then encode_column c else c) X"
    unfolding encode_features_def using assms by (rule encode_columns_map [OF assms])
  also have "\<dots> = map encode_column X"
    by (intro map_cong) (auto simp: df_columns_def)
  finally show ?thesis .
qed

lemma distinct_drop_column: "distinct (df_columns df) \<Longrightarrow> distinct (df_columns (drop_column df t))"
  by (simp add: df_columns_def drop_column_def distinct_map_filter)

lemma split_sample_succeeds:
  "succeeds (split_data stub_library uploaded_session (SplitRequest ''y'' (Finite (1 / 2)) 42))"
  unfolding split_data_def uploaded_session_def succeeds_def
  by (simp add: stub_defs call_def frame_defs initial_state_def percent_def one_minus_def
        JSONResponse_def Let_def)

lemma encode_sample:
  "map encode_column (drop_column sample_table ''y'')
     = [\<lparr>name = ''x'', dtype = Int64, vals = [IntV 1, IntV 3, IntV 5, IntV 9]\<rparr>,
        \<lparr>name = ''city'', dtype = Int64, vals = [IntV 0, IntV 1, IntV (- 1), IntV 0]\<rparr>,
        \<lparr>name = ''flag'', dtype = Bool,
          vals = [BoolV True, BoolV False, BoolV True, BoolV False]\<rparr>]"
  by (simp add: drop_column_def sample_table_def encode_column_def first_seen_codes_def isna_def)

subsection \<open>The checks of a preprocessing request\<close>

lemma select_scaler_methods:
  "(m = ''standardize'' \<or> m = ''normalize'') \<longleftrightarrow> (\<exists>sc nm. select_scaler m = Inr (sc, nm))"
  by (auto simp: select_scaler_def)

lemma columns_valid_filters:
  "columns_valid df cols \<longleftrightarrow>
     filter (\<lambda>col. col \<notin> set (df_columns df)) cols = []
     \<and> filter (\<lambda>col. \<not> column_is_numeric df col) cols = []"
  by (auto simp: columns_valid_def list_all_iff filter_empty_conv)

section \<open>The claims\<close>

subsection \<open>Upload\<close>

text \<open>
  C1. After a successful upload the session holds the parsed table as original and as
  working dataset, has no applied transformations, and its split and trained model are
  cleared. The source clears the four partitions and the model handle, and leaves the
  target column name, the feature column names and the model name as they were
  (\<open>upload_keeps_names\<close>), although its comment announces a reset of the downstream state,
  the split endpoint clears the model name with the model, and the full reset clears all of
  them. Run: upload, split on \<open>y\<close>, train a decision tree, upload a second file, which has
  no missing value and no column \<open>y\<close>. The second upload succeeds and stores its table, and
  the names of the first pipeline are still in the session.
\<close>

theorem upload_keeps_stale_names:
  "succeeds (upload_dataset stub_library (run stub_library initial_state pipeline_requests)
       plain_file)
   \<and> original_df (run stub_library initial_state (pipeline_requests @ [Upload plain_file]))
       = Some plain_table
   \<and> ''y'' \<notin> set (df_columns plain_table)
   \<and> split_of (run stub_library initial_state (pipeline_requests @ [Upload plain_file]))
       = (None, None, None, None, Some ''y'', Some [''x'', ''city'', ''flag''])
   \<and> trained_model_of (run stub_library initial_state (pipeline_requests @ [Upload plain_file]))
       = (None, Some ''Decision Tree Classifier'')"
  by (simp add: run_snoc run_pipeline upload_plain_after_training succeeds_def split_of_def
        trained_model_of_def,
      simp add: trained_session_def plain_table_def df_columns_def)

subsection \<open>The trained model and the split\<close>




subsection \<open>Failing calls and the session\<close>

text \<open>
  C3. A failing call leaves the whole session as it was before the call. Every endpoint
  checks before it writes, but builds its response after it has written
  (\<open>failure_leaves_session\<close>, \<open>split_failure\<close>). Run: upload a table whose column \<open>b\<close> has
  no values, split with target \<open>b\<close>. The partition succeeds and is stored; the response
  lists the target classes, here one NaN, which cannot be serialised; the handler of the
  endpoint turns the exception into an error response. The call fails and the session has
  a split that it did not have before.
\<close>

theorem failed_split_changes_session:
  "fails_with (split_data stub_library (run stub_library initial_state [Upload gap_file])
                 (SplitRequest ''b'' (Finite (1 / 2)) 42)) OperationError
   \<and> split_of (run stub_library initial_state [Upload gap_file])
       = (None, None, None, None, None, None)
   \<and> split_of (snd (split_data stub_library (run stub_library initial_state [Upload gap_file])
                 (SplitRequest ''b'' (Finite (1 / 2)) 42)))
       = (Some [\<lparr>name = ''a'', dtype = Int64, vals = [IntV 0, IntV 1]\<rparr>],
          Some [\<lparr>name = ''a'', dtype = Int64, vals = [IntV 0, IntV 1]\<rparr>],
          Some \<lparr>name = ''b'', dtype = Float64, vals = [FloatV NaN, FloatV NaN]\<rparr>,
          Some \<lparr>name = ''b'', dtype = Float64, vals = [FloatV NaN, FloatV NaN]\<rparr>,
          Some ''b'', Some [''a''])"
  unfolding run.simps handle.simps upload_gap snd_conv
  unfolding split_data_def gap_uploaded_def fails_with_def split_of_def
  by (simp add: stub_defs call_def frame_defs percent_def one_minus_def JSONResponse_def
        initial_state_def Let_def)

subsection \<open>Resetting the preprocessing\<close>

text \<open>
  C4. After a successful upload and any sequence of preprocessing requests, successful or
  not, resetting the preprocessing succeeds; afterwards the working dataset is the
  original dataset of the upload, which the requests have not changed, and no
  transformation is recorded. The response of the reset is the preview of the frame whose
  preview the upload has already serialised.
\<close>

theorem reset_restores_upload:
  assumes "upload_dataset L s f = (Inr r, s1)"
  shows "succeeds (reset_preprocessing (run L s1 (map Preprocess reqs)))
       \<and> original_df s1 \<noteq> None
       \<and> processed_df s1 = original_df s1
       \<and> original_df (snd (reset_preprocessing (run L s1 (map Preprocess reqs)))) = original_df s1
       \<and> processed_df (snd (reset_preprocessing (run L s1 (map Preprocess reqs)))) = original_df s1
       \<and> transformations_applied (snd (reset_preprocessing (run L s1 (map Preprocess reqs)))) = []"
proof -
  let ?s2 = "run L s1 (map Preprocess reqs)"
  from upload_success [OF assms] obtain df where
    up: "original_df s1 = Some df" "json_preview_ok (df_to_json df)"
      "processed_df s1 = original_df s1"
    by auto
  then have orig: "original_df ?s2 = Some df" by (simp add: run_preprocess_original)
  from reset_preprocessing_effect [OF orig] up orig show ?thesis by simp
qed

theorem reset_restores_upload_witness:
  "upload_dataset stub_library initial_state sample_file
     = (Inr (UploadOk ''Sample.CSV'' (nan_count_of sample_table) (dataset_info_of sample_table)
              (df_to_json sample_table)), uploaded_session)
   \<and> processed_df (run stub_library uploaded_session
                     (map Preprocess [PreprocessRequest [''x''] ''normalize'']))
       \<noteq> Some sample_table
   \<and> succeeds (reset_preprocessing (run stub_library uploaded_session
                     (map Preprocess [PreprocessRequest [''x''] ''normalize''])))
   \<and> processed_df (snd (reset_preprocessing (run stub_library uploaded_session
                     (map Preprocess [PreprocessRequest [''x''] ''normalize''])))) = Some sample_table
   \<and> transformations_applied (snd (reset_preprocessing (run stub_library uploaded_session
                     (map Preprocess [PreprocessRequest [''x''] ''normalize''])))) = []"
  using reset_restores_upload [OF upload_sample, of "[PreprocessRequest [''x''] ''normalize'']"]
  by (simp add: upload_sample preprocess_sample) (simp add: uploaded_session_def sample_table_def)

text \<open>
  C5. Neither a preprocessing request, whether it succeeds or fails, nor a reset of the
  preprocessing changes the six parts of the split or the trained model and its name.
\<close>

theorem preprocessing_keeps_split_and_model:
  "split_of (snd (preprocess_data L s request)) = split_of s
   \<and> trained_model_of (snd (preprocess_data L s request)) = trained_model_of s
   \<and> split_of (snd (reset_preprocessing s)) = split_of s
   \<and> trained_model_of (snd (reset_preprocessing s)) = trained_model_of s"
  by (simp add: preprocess_downstream reset_preprocessing_downstream)

subsection \<open>Encoding before the partition\<close>

text \<open>
  C6 as stated: every feature column of a non-numeric type is converted to integer codes
  before the partition. The source encodes the columns of dtype object only. A bool column
  is not numeric for the check of the preprocessing endpoint, and it reaches the partition
  as it is.
\<close>

theorem bool_feature_not_encoded:
  "\<not> column_is_numeric sample_table ''flag''
   \<and> processed_df uploaded_session = Some sample_table
   \<and> succeeds (split_data stub_library uploaded_session (SplitRequest ''y'' (Finite (1 / 2)) 42))
   \<and> X_train (snd (split_data stub_library uploaded_session
         (SplitRequest ''y'' (Finite (1 / 2)) 42)))
       = Some [\<lparr>name = ''x'', dtype = Int64, vals = [IntV 1, IntV 3]\<rparr>,
               \<lparr>name = ''city'', dtype = Int64, vals = [IntV 0, IntV 1]\<rparr>,
               \<lparr>name = ''flag'', dtype = Bool, vals = [BoolV True, BoolV False]\<rparr>]"
  by (simp add: split_sample split_sample_succeeds)
     (simp add: column_is_numeric_def get_column_def sample_table_def uploaded_session_def
        trained_session_def)

text \<open>
  C6, amended. When a split succeeds on a working dataset with distinct column names, the
  partition is made of the feature columns (all columns but the target), each encoded on
  its own: a column of dtype object becomes an int64 column of codes in first-seen order of
  its values, with -1 for a missing value; every other column, numeric or bool, is passed
  through unchanged.
\<close>

theorem split_encodes_object_features:
  assumes "processed_df s = Some df" and "distinct (df_columns df)"
    and "succeeds (split_data L s (SplitRequest target test_size seed))"
  shows "(\<exists>y. get_column df target = Some y
          \<and> train_test_split L (map encode_column (drop_column df target)) y test_size seed
                (if 1 < length (unique (vals y)) then Some y else None)
              = Inr (the (X_train (snd (split_data L s (SplitRequest target test_size seed)))),
                     the (X_test (snd (split_data L s (SplitRequest target test_size seed)))),
                     the (y_train (snd (split_data L s (SplitRequest target test_size seed)))),
                     the (y_test (snd (split_data L s (SplitRequest target test_size seed))))))
       \<and> (\<forall>c. dtype c = Object \<longrightarrow>
             encode_column c = c\<lparr>dtype := Int64, vals := map IntV (first_seen_codes (vals c))\<rparr>)
       \<and> (\<forall>c. dtype c \<noteq> Object \<longrightarrow> encode_column c = c)"
proof -
  have enc: "encode_features (drop_column df target) = map encode_column (drop_column df target)"
    using assms(2) by (intro encode_features_map distinct_drop_column)
  from assms(1,3) have "\<exists>y. get_column df target = Some y
          \<and> train_test_split L (map encode_column (drop_column df target)) y test_size seed
                (if 1 < length (unique (vals y)) then Some y else None)
              = Inr (the (X_train (snd (split_data L s (SplitRequest target test_size seed)))),
                     the (X_test (snd (split_data L s (SplitRequest target test_size seed)))),
                     the (y_train (snd (split_data L s (SplitRequest target test_size seed)))),
                     the (y_test (snd (split_data L s (SplitRequest target test_size seed)))))"
    by (auto simp: split_data_def succeeds_def Let_def call_def enc
             split: option.splits sum.splits if_splits prod.splits)
  then show ?thesis by (simp add: encode_column_def)
qed

theorem split_encodes_object_features_witness:
  "processed_df uploaded_session = Some sample_table
   \<and> distinct (df_columns sample_table)
   \<and> succeeds (split_data stub_library uploaded_session (SplitRequest ''y'' (Finite (1 / 2)) 42))
   \<and> map encode_column (drop_column sample_table ''y'')
     = [\<lparr>name = ''x'', dtype = Int64, vals = [IntV 1, IntV 3, IntV 5, IntV 9]\<rparr>,
        \<lparr>name = ''city'', dtype = Int64, vals = [IntV 0, IntV 1, IntV (- 1), IntV 0]\<rparr>,
        \<lparr>name = ''flag'', dtype = Bool,
          vals = [BoolV True, BoolV False, BoolV True, BoolV False]\<rparr>]
   \<and> (\<exists>y. get_column sample_table ''y'' = Some y
        \<and> train_test_split stub_library (map encode_column (drop_column sample_table ''y'')) y
             (Finite (1 / 2)) 42 (if 1 < length (unique (vals y)) then Some y else None)
           = Inr (the (X_train trained_session), the (X_test trained_session),
                  the (y_train trained_session), the (y_test trained_session)))"
proof -
  have p: "processed_df uploaded_session = Some sample_table"
    by (simp add: uploaded_session_def)
  have d: "distinct (df_columns sample_table)"
    by (simp add: df_columns_def sample_table_def)
  from split_encodes_object_features [OF p d split_sample_succeeds] p d split_sample_succeeds
  show ?thesis
    by (simp add: split_sample encode_sample)
qed

subsection \<open>Validation of a split\<close>

text \<open>
  C7. With a working dataset present, a split fails with a validation error exactly when
  the target column is not a column of the dataset or the test fraction is outside the
  closed interval from 0.1 to 0.5. A test fraction of 0.6 fails so; the fractions 0.1 and
  0.5 pass the validation.
\<close>

theorem split_validation:
  assumes "processed_df s = Some df"
  shows "(fails_with (split_data L s (SplitRequest target test_size seed)) ValidationError
           \<longleftrightarrow> target \<notin> set (df_columns df) \<or> test_size \<notin> Finite ` {1 / 10 .. 1 / 2})
       \<and> fails_with (split_data L s (SplitRequest target (Finite (6 / 10)) seed)) ValidationError
       \<and> (target \<in> set (df_columns df) \<longrightarrow>
            \<not> fails_with (split_data L s (SplitRequest target (Finite (1 / 10)) seed)) ValidationError
          \<and> \<not> fails_with (split_data L s (SplitRequest target (Finite (1 / 2)) seed)) ValidationError)"
proof -
  have general: "fails_with (split_data L s (SplitRequest target ts seed)) ValidationError
           \<longleftrightarrow> target \<notin> set (df_columns df) \<or> ts \<notin> Finite ` {1 / 10 .. 1 / 2}" for ts
    using assms
    by (cases ts)
       (auto simp: split_data_def fails_with_def Let_def
             split: option.splits sum.splits prod.splits)
  show ?thesis
    using general [of test_size] general [of "Finite (6 / 10)"] general [of "Finite (1 / 10)"]
      general [of "Finite (1 / 2)"]
    by auto
qed

theorem split_validation_witness:
  "processed_df uploaded_session = Some sample_table
   \<and> ''y'' \<in> set (df_columns sample_table)
   \<and> fails_with (split_data stub_library uploaded_session (SplitRequest ''y'' (Finite (6 / 10)) 42))
        ValidationError
   \<and> \<not> fails_with (split_data stub_library uploaded_session (SplitRequest ''y'' (Finite (1 / 10)) 42))
        ValidationError
   \<and> \<not> fails_with (split_data stub_library uploaded_session (SplitRequest ''y'' (Finite (1 / 2)) 42))
        ValidationError
   \<and> fails_with (split_data stub_library uploaded_session (SplitRequest ''z'' (Finite (1 / 5)) 42))
        ValidationError"
proof -
  have p: "processed_df uploaded_session = Some sample_table"
    by (simp add: uploaded_session_def)
  have y: "''y'' \<in> set (df_columns sample_table)" and z: "''z'' \<notin> set (df_columns sample_table)"
    by (simp_all add: df_columns_def sample_table_def)
  show ?thesis
    using p y z split_validation [OF p, of stub_library "''y''" "Finite (1 / 5)" 42]
      split_validation [OF p, of stub_library "''z''" "Finite (1 / 5)" 42]
    by simp
qed

subsection \<open>Validation and outcome of a preprocessing request\<close>

text \<open>
  C8 as stated: when every requested column is present and numeric and the method is one
  of the two, the call succeeds. With no requested column at all the check passes, the
  scaler raises on the empty selection, and the call fails without recording anything.
\<close>

theorem preprocess_empty_selection_fails:
  "processed_df (run stub_library initial_state [Upload sample_file]) = Some sample_table
   \<and> columns_valid sample_table []
   \<and> fails_with (preprocess_data stub_library (run stub_library initial_state [Upload sample_file])
        (PreprocessRequest [] ''standardize'')) OperationError
   \<and> transformations_applied (snd (preprocess_data stub_library
        (run stub_library initial_state [Upload sample_file])
        (PreprocessRequest [] ''standardize''))) = []"
  unfolding run.simps handle.simps upload_sample snd_conv
  unfolding preprocess_data_def uploaded_session_def fails_with_def
  by (simp add: stub_defs call_def frame_defs select_scaler_def columns_valid_def
        initial_state_def Let_def)

text \<open>
  C8, amended. With a working dataset present, a preprocessing request fails with a
  validation error whenever some requested column is absent or not numeric. When all
  requested columns are present and numeric and the method is \<open>standardize\<close> or
  \<open>normalize\<close> (that is, a scaler is selected), the outcome is the scaler's. If it raises,
  the call fails with the rewrapped error and the session is unchanged. If it returns an
  array with one column per requested name and one entry per row, and the preview of the
  scaled frame can be serialised, the call succeeds, stores the scaled frame and appends
  exactly one description.
\<close>

theorem preprocess_outcome:
  assumes "processed_df s = Some df"
  shows "(\<not> columns_valid df cols \<longrightarrow>
            fails_with (preprocess_data L s (PreprocessRequest cols m)) ValidationError)
       \<and> (columns_valid df cols \<and> select_scaler m = Inr (sc, nm)
            \<and> fit_transform L sc (select_columns df cols) = Inr arr
            \<and> length arr = length cols \<and> list_all (\<lambda>v. length v = len_df df) arr
            \<and> set_columns df cols arr = Inr df' \<and> json_preview_ok (df_to_json df') \<longrightarrow>
            succeeds (preprocess_data L s (PreprocessRequest cols m))
            \<and> processed_df (snd (preprocess_data L s (PreprocessRequest cols m))) = Some df'
            \<and> transformations_applied (snd (preprocess_data L s (PreprocessRequest cols m)))
                = transformations_applied s @ [Applied nm cols])
       \<and> (columns_valid df cols \<and> select_scaler m = Inr (sc, nm)
            \<and> fit_transform L sc (select_columns df cols) = Inl msg \<longrightarrow>
            fails_with (preprocess_data L s (PreprocessRequest cols m)) OperationError
            \<and> snd (preprocess_data L s (PreprocessRequest cols m)) = s)
       \<and> ((m = ''standardize'' \<or> m = ''normalize'') \<longleftrightarrow> (\<exists>sc nm. select_scaler m = Inr (sc, nm)))"
proof -
  have invalid: "fails_with (preprocess_data L s (PreprocessRequest cols m)) ValidationError"
    if "\<not> columns_valid df cols"
    using that assms
    by (auto simp: columns_valid_filters preprocess_data_def fails_with_def Let_def)
  have ok: "succeeds (preprocess_data L s (PreprocessRequest cols m))
            \<and> processed_df (snd (preprocess_data L s (PreprocessRequest cols m))) = Some df'
            \<and> transformations_applied (snd (preprocess_data L s (PreprocessRequest cols m)))
                = transformations_applied s @ [Applied nm cols]"
    if "columns_valid df cols" "select_scaler m = Inr (sc, nm)"
      "fit_transform L sc (select_columns df cols) = Inr arr"
      "set_columns df cols arr = Inr df'" "json_preview_ok (df_to_json df')"
    using that assms
    by (simp add: columns_valid_filters preprocess_data_def succeeds_def call_def
          JSONResponse_def Let_def)
  have raised: "fails_with (preprocess_data L s (PreprocessRequest cols m)) OperationError
            \<and> snd (preprocess_data L s (PreprocessRequest cols m)) = s"
    if "columns_valid df cols" "select_scaler m = Inr (sc, nm)"
      "fit_transform L sc (select_columns df cols) = Inl msg"
    using that assms
    by (simp add: columns_valid_filters preprocess_data_def fails_with_def call_def Let_def)
  from invalid ok raised select_scaler_methods [of m] show ?thesis by blast
qed

theorem preprocess_outcome_witness:
  "processed_df uploaded_session = Some sample_table
   \<and> \<not> columns_valid sample_table [''x'', ''city'']
   \<and> fails_with (preprocess_data stub_library uploaded_session
        (PreprocessRequest [''x'', ''city''] ''normalize'')) ValidationError
   \<and> \<not> columns_valid sample_table [''missing'']
   \<and> fails_with (preprocess_data stub_library uploaded_session
        (PreprocessRequest [''missing''] ''normalize'')) ValidationError
   \<and> columns_valid sample_table [''x'']
   \<and> succeeds (preprocess_data stub_library uploaded_session
        (PreprocessRequest [''x''] ''normalize''))
   \<and> transformations_applied (snd (preprocess_data stub_library uploaded_session
        (PreprocessRequest [''x''] ''normalize'')))
       = [Applied ''MinMaxScaler (0-1 normalization)'' [''x'']]
   \<and> columns_valid sample_table []
   \<and> fails_with (preprocess_data stub_library uploaded_session
        (PreprocessRequest [] ''normalize'')) OperationError
   \<and> snd (preprocess_data stub_library uploaded_session (PreprocessRequest [] ''normalize''))
       = uploaded_session"
proof -
  let ?scaled = "\<lparr>name = ''x'', dtype = Float64,
       vals = [FloatV (Finite 0), FloatV (Finite (1 / 4)), FloatV (Finite (1 / 2)),
               FloatV (Finite 1)]\<rparr> # tl sample_table"
  have p: "processed_df uploaded_session = Some sample_table"
    by (simp add: uploaded_session_def)
  have v1: "\<not> columns_valid sample_table [''x'', ''city'']"
    and v2: "\<not> columns_valid sample_table [''missing'']"
    and v3: "columns_valid sample_table [''x'']"
    and v4: "columns_valid sample_table []"
    by (simp_all add: columns_valid_def column_is_numeric_def get_column_def df_columns_def
          sample_table_def)
  have sc: "select_scaler ''normalize'' = Inr (MinMaxScaler, ''MinMaxScaler (0-1 normalization)'')"
    by (simp add: select_scaler_def)
  have ft: "fit_transform stub_library MinMaxScaler (select_columns sample_table [''x''])
      = Inr [[Finite 0, Finite (1 / 4), Finite (1 / 2), Finite 1]]"
    by (simp add: stub_defs select_columns_def)
  have raise: "fit_transform stub_library MinMaxScaler (select_columns sample_table [])
      = Inl ''at least one array or dtype is required''"
    by (simp add: stub_defs select_columns_def)
  have len: "len_df sample_table = 4" by (simp add: len_df_def sample_table_def)
  have st: "set_columns sample_table [''x''] [[Finite 0, Finite (1 / 4), Finite (1 / 2), Finite 1]]
      = Inr ?scaled"
    by (simp add: set_columns_def set_column_def len_df_def sample_table_def)
  have pv: "json_preview_ok (df_to_json ?scaled)"
    by (simp add: preview_defs frame_defs sample_table_def Let_def)
  have ts: "transformations_applied uploaded_session = []"
    by (simp add: uploaded_session_def initial_state_def)
  show ?thesis
    using p v1 v2 v3 v4 sc ft raise len st pv ts
      preprocess_outcome [OF p, where cols = "[''x'', ''city'']" and L = stub_library
        and m = "''normalize''"]
      preprocess_outcome [OF p, where cols = "[''missing'']" and L = stub_library
        and m = "''normalize''"]
      preprocess_outcome [OF p, where cols = "[''x'']" and L = stub_library
        and m = "''normalize''" and sc = MinMaxScaler
        and nm = "''MinMaxScaler (0-1 normalization)''"
        and arr = "[[Finite 0, Finite (1 / 4), Finite (1 / 2), Finite 1]]"
        and df' = ?scaled]
      preprocess_outcome [OF p, where cols = "[]" and L = stub_library
        and m = "''normalize''" and sc = MinMaxScaler
        and nm = "''MinMaxScaler (0-1 normalization)''"
        and msg = "''at least one array or dtype is required''"]
    by simp
qed

subsection \<open>Preconditions of training and evaluation\<close>

text \<open>
  C9. Without a split, a training request fails with a precondition error and the session,
  so also its model, stays as it was. Without a trained model, an evaluation fails with a
  precondition error and changes nothing.
\<close>

theorem precondition_errors:
  "(X_train s = None \<longrightarrow>
      train_model L s request = (Inl DataNotSplit, s) \<and> kind_of DataNotSplit = PreconditionError)
   \<and> (model s = None \<longrightarrow>
      get_results L s = (Inl NoModelTrained, s) \<and> kind_of NoModelTrained = PreconditionError)"
  by (simp add: train_model_def get_results_def)

theorem precondition_errors_witness:
  "X_train (initial_state :: (table \<times> series) session_state) = None
   \<and> model (initial_state :: (table \<times> series) session_state) = None
   \<and> train_model stub_library initial_state (TrainRequest ''decision_tree'')
       = (Inl DataNotSplit, initial_state)
   \<and> get_results stub_library initial_state = (Inl NoModelTrained, initial_state)"
  using precondition_errors [of initial_state stub_library "TrainRequest ''decision_tree''"]
  by (simp add: initial_state_def)

subsection \<open>The status report\<close>

text \<open>
  C10. In the status report the flag of the results stage equals the flag of the training
  stage: both say whether a model is stored. So the results stage is reported as reached
  right after a successful training, without any evaluation.
\<close>

theorem status_results_flag:
  "results_flag (get_pipeline_status s) = train_flag (get_pipeline_status s)
   \<and> train_flag (get_pipeline_status s) = (model s \<noteq> None)
   \<and> (succeeds (train_model L s request) \<longrightarrow>
        results_flag (get_pipeline_status (snd (train_model L s request))))"
  by (auto simp: get_pipeline_status_def train_model_def succeeds_def Let_def
           split: option.splits sum.splits prod.splits)

theorem status_results_flag_witness:
  "succeeds (train_model stub_library (trained_session\<lparr>model := None, model_name := None\<rparr>)
       (TrainRequest ''decision_tree''))
   \<and> \<not> results_flag (get_pipeline_status (trained_session\<lparr>model := None, model_name := None\<rparr>))
   \<and> results_flag (get_pipeline_status (snd (train_model stub_library
        (trained_session\<lparr>model := None, model_name := None\<rparr>) (TrainRequest ''decision_tree''))))"
  using status_results_flag [of "trained_session\<lparr>model := None, model_name := None\<rparr>"
      stub_library "TrainRequest ''decision_tree''"]
  by (simp add: train_sample succeeds_def)


end
